theory Spec2Isabelle
  imports Main "HOL-Library.Word" "HOL-Library.Finite_Map"
begin

unbundle bit_operations_syntax

section \<open>Data model of recv.go\<close>

type_synonym byte = "8 word"
type_synonym bytes = "byte list"

text \<open>A Go \<^verbatim>\<open>error\<close> value; only its presence matters to the receiver.\<close>

datatype error = Error string

text \<open>
  The interface \<^verbatim>\<open>parse.Message\<close> is used by \<^verbatim>\<open>Run\<close> through its two accessors
  \<^verbatim>\<open>MeterID()\<close> and \<^verbatim>\<open>MeterType()\<close>, whose results are converted with \<^verbatim>\<open>uint(...)\<close>.
  The remaining content of a message is carried along unchanged.
\<close>

record message =
  MeterID :: "32 word"
  MeterType :: "8 word"
  payload :: bytes

text \<open>\<^verbatim>\<open>parse.LogMessage\<close>: the four fields assigned in \<^verbatim>\<open>Run\<close>.\<close>

record LogMessage =
  Time :: int
  Offset :: int
  Length :: "64 word"
  Message :: message

text \<open>
  The variables \<^verbatim>\<open>meterID\<close> and \<^verbatim>\<open>meterType\<close> are declared with the flags, outside
  \<^verbatim>\<open>recv.go\<close>; \<^verbatim>\<open>Run\<close> takes their \<^verbatim>\<open>len\<close> and indexes them with a \<^verbatim>\<open>uint\<close> for a
  \<^verbatim>\<open>bool\<close>, as Go maps from \<^verbatim>\<open>uint\<close> to \<^verbatim>\<open>bool\<close>: \<^verbatim>\<open>len\<close> counts the keys, and
  indexing yields the stored value, or \<^verbatim>\<open>false\<close> for a key that is absent.
\<close>

type_synonym UintMap = "(64 word, bool) fmap"

definition len_map :: "UintMap \<Rightarrow> nat" where
  "len_map m = fcard (fmdom m)"

definition index_map :: "UintMap \<Rightarrow> 64 word \<Rightarrow> bool" where
  "index_map m k = (case fmlookup m k of None \<Rightarrow> False | Some b \<Rightarrow> b)"

text \<open>The two fields of the decoder configuration \<^verbatim>\<open>rcvr.d.Cfg\<close> that \<^verbatim>\<open>Run\<close> reads.\<close>

record PacketConfig =
  BlockSize2 :: "64 word"
  BufferLength :: "64 word"

text \<open>
  The global \<^verbatim>\<open>encoder\<close>: \<^verbatim>\<open>nil\<close> (plain text), an \<^verbatim>\<open>*xml.Encoder\<close>, or any other
  encoder behind the same interface.
\<close>

datatype encoder_kind = XmlEncoder | OtherEncoder

definition DevNull :: string where
  "DevNull = ''/dev/null''"

text \<open>
  Everything \<^verbatim>\<open>Run\<close> reads but never changes: the decoder and parser behind their
  interfaces (the decoder with a state of its own, of which \<^verbatim>\<open>IQ\<close> is the raw sample
  buffer), the configuration and the command-line flags.
\<close>

record 'd env =
  Cfg :: PacketConfig
  Decode :: "'d \<Rightarrow> bytes \<Rightarrow> bytes list \<times> 'd"
  IQ :: "'d \<Rightarrow> bytes"
  Parse :: "bytes \<Rightarrow> error + message"
  single :: bool
  sampleFilename :: string
  encoder :: "encoder_kind option"
  meterID :: UintMap
  meterType :: UintMap

text \<open>
  What the outside world answers during one iteration of the loop: which case of the
  \<^verbatim>\<open>select\<close> is taken, the result of \<^verbatim>\<open>rcvr.Read\<close>, and, for the candidate at
  index \<open>k\<close> of the block, the clock, the result of \<^verbatim>\<open>encoder.Encode\<close> and whether
  \<^verbatim>\<open>fmt.Fprintln\<close> to the log file succeeds; last the result of \<^verbatim>\<open>sampleFile.Write\<close>.
\<close>

datatype select_case = Sigint | TLimit | Default

record iter_input =
  sel :: select_case
  rd :: "error + bytes"
  now :: "nat \<Rightarrow> int"
  enc :: "nat \<Rightarrow> error option"
  prn :: "nat \<Rightarrow> bool"
  wr :: "error option"

text \<open>
  The calls \<^verbatim>\<open>Run\<close> and \<^verbatim>\<open>main\<close> make on the outside world, in the order made.
  \<open>Println_ev off msg ok\<close> is a plain-text line (\<open>off\<close>: with the offset), \<open>ok\<close> the
  success of the write, which the code does not look at.
\<close>

datatype event =
    Read_ev
  | TimeLimit_ev
  | Println_ev bool LogMessage bool
  | Encode_ev LogMessage "error option"
  | Newline_ev bool
  | Write_ev bytes "error option"
  | Fatal_ev string
  | StartProfile_ev
  | StopProfile_ev
  | Close_ev string

text \<open>
  How a call of \<^verbatim>\<open>Run\<close> stands: still looping, returned to \<^verbatim>\<open>main\<close>, ended by
  \<^verbatim>\<open>log.Fatal\<close> (which is \<^verbatim>\<open>os.Exit(1)\<close> after printing), or panicking.
\<close>

datatype outcome = Running | Returned | Fatal | Panicked

record 'd state =
  dec :: 'd
  block :: bytes
  pos :: int

section \<open>The receive loop\<close>

text \<open>The two \<^verbatim>\<open>continue\<close> guards on the inclusion maps: a message passes when neither fires.\<close>

definition accept :: "'d env \<Rightarrow> message \<Rightarrow> bool" where
  "accept E scm \<longleftrightarrow>
     \<not> (0 < len_map (meterID E) \<and> \<not> index_map (meterID E) (ucast (MeterID scm))) \<and>
     \<not> (0 < len_map (meterType E) \<and> \<not> index_map (meterType E) (ucast (MeterType scm)))"

text \<open>Writing one log message; the flag returned says that \<^verbatim>\<open>log.Fatal\<close> was called.\<close>

definition emit :: "'d env \<Rightarrow> iter_input \<Rightarrow> nat \<Rightarrow> LogMessage \<Rightarrow> event list \<times> bool" where
  "emit E i k msg =
     (case encoder E of
        None \<Rightarrow>
          (if sampleFilename E = DevNull then ([Println_ev False msg (prn i k)], False)
           else ([Println_ev True msg (prn i k)], False))
      | Some e \<Rightarrow>
          (case enc i k of
             Some err \<Rightarrow> ([Encode_ev msg (Some err), Fatal_ev ''Error encoding message: ''], True)
           | None \<Rightarrow>
               (if e = XmlEncoder then ([Encode_ev msg None, Newline_ev (prn i k)], False)
                else ([Encode_ev msg None], False))))"

text \<open>
  The inner loop over the packets of one block, from the candidate at index \<open>k\<close> on,
  with the file position \<open>p\<close> that \<^verbatim>\<open>Seek(0, os.SEEK_CUR)\<close> reports. It returns the
  calls made, \<^verbatim>\<open>pktFound\<close>, and whether \<^verbatim>\<open>log.Fatal\<close> ended the process.
\<close>

fun packets :: "'d env \<Rightarrow> iter_input \<Rightarrow> int \<Rightarrow> nat \<Rightarrow> bytes list \<Rightarrow> bool \<Rightarrow>
    event list \<times> bool \<times> bool" where
  "packets E i p k [] pktFound = ([], pktFound, False)"
| "packets E i p k (pkt # rest) pktFound =
     (case Parse E pkt of
        Inl err \<Rightarrow> packets E i p (Suc k) rest pktFound
      | Inr scm \<Rightarrow>
          if \<not> accept E scm then packets E i p (Suc k) rest pktFound
          else
            let msg = \<lparr>Time = now i k, Offset = p,
                       Length = push_bit 1 (BufferLength (Cfg E)), Message = scm\<rparr>;
                (evs, fatal) = emit E i k msg
            in if fatal then (evs, pktFound, True)
               else if single E then (evs, True, False)
               else (case packets E i p (Suc k) rest True of
                       (evs', r) \<Rightarrow> (evs @ evs', r)))"

text \<open>\<^verbatim>\<open>rcvr.Read(block)\<close> overwrites a prefix of the buffer, whose length stays.\<close>

definition fill :: "bytes \<Rightarrow> bytes \<Rightarrow> bytes" where
  "fill blk data = take (length blk) data @ drop (length data) blk"

text \<open>What follows the inner loop: the write of the raw samples and the single-shot return.\<close>

definition finish :: "'d env \<Rightarrow> iter_input \<Rightarrow> 'd state \<Rightarrow> bool \<Rightarrow>
    outcome \<times> 'd state \<times> event list" where
  "finish E i s pktFound =
     (if pktFound then
        (if sampleFilename E \<noteq> DevNull then
           (case wr i of
              Some err \<Rightarrow>
                (Fatal, s, [Write_ev (IQ E (dec s)) (Some err),
                            Fatal_ev ''Error writing raw samples to file:''])
            | None \<Rightarrow>
                (if single E then Returned else Running,
                 s\<lparr>pos := pos s + int (length (IQ E (dec s)))\<rparr>,
                 [Write_ev (IQ E (dec s)) None]))
         else (if single E then Returned else Running, s, []))
      else (Running, s, []))"

text \<open>One pass through the body of the \<^verbatim>\<open>for\<close> loop.\<close>

definition iteration :: "'d env \<Rightarrow> iter_input \<Rightarrow> 'd state \<Rightarrow>
    outcome \<times> 'd state \<times> event list" where
  "iteration E i s =
     (case sel i of
        Sigint \<Rightarrow> (Returned, s, [])
      | TLimit \<Rightarrow> (Returned, s, [TimeLimit_ev])
      | Default \<Rightarrow>
          (case rd i of
             Inl err \<Rightarrow> (Fatal, s, [Read_ev, Fatal_ev ''Error reading samples: ''])
           | Inr data \<Rightarrow>
               let blk = fill (block s) data;
                   (pkts, d) = Decode E (dec s) blk;
                   s1 = s\<lparr>dec := d, block := blk\<rparr>;
                   (evs, pktFound, fatal) = packets E i (pos s) 0 pkts False
               in if fatal then (Fatal, s1, Read_ev # evs)
                  else (case finish E i s1 pktFound of
                          (out, s2, evs') \<Rightarrow> (out, s2, Read_ev # evs @ evs'))))"

text \<open>
  The \<^verbatim>\<open>for\<close> loop, run on the answers of the outside world for its first iterations:
  \<open>Running\<close> says that the loop is about to enter its next iteration. The calls are
  returned iteration by iteration.
\<close>

fun loop :: "'d env \<Rightarrow> iter_input list \<Rightarrow> 'd state \<Rightarrow> outcome \<times> 'd state \<times> event list list" where
  "loop E [] s = (Running, s, [])"
| "loop E (i # rest) s =
     (case iteration E i s of
        (Running, s', evs) \<Rightarrow> (case loop E rest s' of (out, s'', evss) \<Rightarrow> (out, s'', evs # evss))
      | (out, s', evs) \<Rightarrow> (out, s', [evs]))"

text \<open>
  \<^verbatim>\<open>Run\<close>: \<^verbatim>\<open>make([]byte, BlockSize2)\<close> panics on a negative length; the block starts
  zeroed.
\<close>

definition Run :: "'d env \<Rightarrow> iter_input list \<Rightarrow> 'd \<Rightarrow> int \<Rightarrow> outcome \<times> 'd state \<times> event list list" where
  "Run E inputs d0 p0 =
     (if sint (BlockSize2 (Cfg E)) < 0 then (Panicked, \<lparr>dec = d0, block = [], pos = p0\<rparr>, [])
      else loop E inputs \<lparr>dec = d0, block = replicate (unat (BlockSize2 (Cfg E))) 0, pos = p0\<rparr>)"

text \<open>
  \<^verbatim>\<open>main\<close> from its first \<^verbatim>\<open>defer\<close> on. \<open>cpuprofile\<close> is the flag, \<open>created\<close> the result
  of \<^verbatim>\<open>os.Create\<close>. Deferred calls run, last first, when \<^verbatim>\<open>main\<close> returns or panics,
  and do not run when \<^verbatim>\<open>log.Fatal\<close> exits the process. The result is the exit status,
  if the process has ended, and all the calls made.
\<close>

definition deferred :: "string \<Rightarrow> event list" where
  "deferred cpuprofile =
     (if cpuprofile \<noteq> [] then [StopProfile_ev] else []) @
     [Close_ev ''rcvr'', Close_ev ''sampleFile'', Close_ev ''logFile'']"

definition main :: "'d env \<Rightarrow> string \<Rightarrow> error option \<Rightarrow> iter_input list \<Rightarrow> 'd \<Rightarrow> int \<Rightarrow>
    nat option \<times> event list" where
  "main E cpuprofile created inputs d0 p0 =
     (if cpuprofile \<noteq> [] \<and> created \<noteq> None then (Some 1, [Fatal_ev ''''])
      else
        let start = (if cpuprofile \<noteq> [] then [StartProfile_ev] else [])
        in case Run E inputs d0 p0 of
             (Running, s, evss) \<Rightarrow> (None, start @ concat evss)
           | (Returned, s, evss) \<Rightarrow> (Some 0, start @ concat evss @ deferred cpuprofile)
           | (Fatal, s, evss) \<Rightarrow> (Some 1, start @ concat evss)
           | (Panicked, s, evss) \<Rightarrow> (Some 2, start @ concat evss @ deferred cpuprofile))"

section \<open>Reading a trace\<close>

fun log_entries :: "event list \<Rightarrow> LogMessage list" where
  "log_entries [] = []"
| "log_entries (Println_ev off msg ok # evs) = msg # log_entries evs"
| "log_entries (Encode_ev msg r # evs) = msg # log_entries evs"
| "log_entries (ev # evs) = log_entries evs"

fun sample_writes :: "event list \<Rightarrow> bytes list" where
  "sample_writes [] = []"
| "sample_writes (Write_ev bs r # evs) = bs # sample_writes evs"
| "sample_writes (ev # evs) = sample_writes evs"




fun after_write :: "event list \<Rightarrow> event list" where
  "after_write [] = []"
| "after_write (Write_ev bs r # evs) = evs"
| "after_write (ev # evs) = after_write evs"

text \<open>A candidate packet that parses and passes the filter.\<close>

definition accepted :: "'d env \<Rightarrow> bytes \<Rightarrow> bool" where
  "accepted E pkt = (case Parse E pkt of Inl err \<Rightarrow> False | Inr scm \<Rightarrow> accept E scm)"

text \<open>The candidates of a block up to and including the first accepted one.\<close>

fun upto_accepted :: "'d env \<Rightarrow> bytes list \<Rightarrow> bytes list" where
  "upto_accepted E [] = []"
| "upto_accepted E (pkt # rest) = (if accepted E pkt then [pkt] else pkt # upto_accepted E rest)"

text \<open>The candidate packets the decoder finds in the block read in state \<open>s\<close>.\<close>

definition candidates :: "'d env \<Rightarrow> iter_input \<Rightarrow> 'd state \<Rightarrow> bytes list" where
  "candidates E i s =
     (case sel i of
        Default \<Rightarrow> (case rd i of Inl err \<Rightarrow> [] | Inr data \<Rightarrow> fst (Decode E (dec s) (fill (block s) data)))
      | _ \<Rightarrow> [])"


section \<open>A small receiver on which the theorems are evaluated\<close>

text \<open>
  A decoder that offers every byte of the block as a candidate packet and shifts the
  block into its buffer of raw samples, and a parser that rejects the zero byte and otherwise reads
  the byte as the meter's identifier, with meter type 7.
\<close>

definition demo_parse :: "bytes \<Rightarrow> error + message" where
  "demo_parse pkt =
     (case pkt of
        [b] \<Rightarrow> if b = 0 then Inl (Error ''checksum'')
               else Inr \<lparr>MeterID = ucast b, MeterType = 7, payload = pkt\<rparr>
      | _ \<Rightarrow> Inl (Error ''length''))"

definition demo_env :: "bool \<Rightarrow> string \<Rightarrow> encoder_kind option \<Rightarrow> UintMap \<Rightarrow> UintMap \<Rightarrow> bytes env" where
  "demo_env sgl file e ids types =
     \<lparr>Cfg = \<lparr>BlockSize2 = 2, BufferLength = 3\<rparr>,
      Decode = (\<lambda>d blk. (map (\<lambda>b. [b]) blk, drop (length blk) d @ blk)), IQ = (\<lambda>d. d),
      Parse = demo_parse,
      single = sgl, sampleFilename = file, encoder = e, meterID = ids, meterType = types\<rparr>"

text \<open>An iteration in which every call on the outside world succeeds, at time \<open>t\<close>.\<close>

definition good_input :: "int \<Rightarrow> bytes \<Rightarrow> iter_input" where
  "good_input t data =
     \<lparr>sel = Default, rd = Inr data, now = (\<lambda>k. t), enc = (\<lambda>k. None), prn = (\<lambda>k. True),
      wr = None\<rparr>"

definition demo_plain :: "bytes env" where
  "demo_plain = demo_env False ''samples'' None fmempty fmempty"

definition demo_single :: "bytes env" where
  "demo_single = demo_env True ''samples'' None fmempty fmempty"

definition demo_state :: "bytes state" where
  "demo_state = \<lparr>dec = [0, 0, 0, 0, 0, 0], block = [0, 0], pos = 0\<rparr>"

section \<open>Facts about traces\<close>

lemma log_entries_append: "log_entries (xs @ ys) = log_entries xs @ log_entries ys"
  by (induction xs rule: log_entries.induct) simp_all

lemma sample_writes_append: "sample_writes (xs @ ys) = sample_writes xs @ sample_writes ys"
  by (induction xs rule: sample_writes.induct) simp_all





lemma emit_log: "emit E i k msg = (evs, fatal) \<Longrightarrow> log_entries evs = [msg]"
  by (auto simp: emit_def split: option.splits if_splits)

lemma emit_writes: "emit E i k msg = (evs, fatal) \<Longrightarrow> sample_writes evs = []"
  by (auto simp: emit_def split: option.splits if_splits)



lemma packets_offset:
  "packets E i p k pkts f = (evs, fnd, ftl) \<Longrightarrow> m \<in> set (log_entries evs) \<Longrightarrow>
     Offset m = p \<and> Length m = push_bit 1 (BufferLength (Cfg E))"
proof (induction pkts arbitrary: k f evs fnd ftl)
  case Nil
  then show ?case by simp
next
  case (Cons pkt rest)
  then show ?case
    by (auto simp: Let_def log_entries_append split: sum.splits prod.splits if_splits
        dest!: emit_log)
qed

lemma packets_writes: "packets E i p k pkts f = (evs, fnd, ftl) \<Longrightarrow> sample_writes evs = []"
proof (induction pkts arbitrary: k f evs fnd ftl)
  case Nil
  then show ?case by simp
next
  case (Cons pkt rest)
  then show ?case
    by (auto simp: Let_def sample_writes_append split: sum.splits prod.splits if_splits
        dest!: emit_writes)
qed



lemma packets_none:
  "\<forall>pkt\<in>set pkts. \<not> accepted E pkt \<Longrightarrow> packets E i p k pkts f = ([], f, False)"
  by (induction pkts arbitrary: k) (auto simp: accepted_def split: sum.splits)







lemma accept_single [simp]: "accept (E\<lparr>single := b\<rparr>) scm = accept E scm"
  by (simp add: accept_def)

lemma accepted_single [simp]: "accepted (E\<lparr>single := b\<rparr>) pkt = accepted E pkt"
  by (simp add: accepted_def split: sum.splits)

lemma emit_single [simp]: "emit (E\<lparr>single := b\<rparr>) i k msg = emit E i k msg"
  by (simp add: emit_def)

lemma packets_upto:
  "packets (E\<lparr>single := True\<rparr>) i p k pkts f =
   packets (E\<lparr>single := False\<rparr>) i p k (upto_accepted E pkts) f"
proof (induction pkts arbitrary: k f)
  case Nil
  then show ?case by simp
next
  case (Cons pkt rest)
  then show ?case
    by (auto simp: Let_def accepted_def accept_def split: sum.splits prod.splits)
qed

lemma iteration_offset:
  "iteration E i s = (out, s', evs) \<Longrightarrow> m \<in> set (log_entries evs) \<Longrightarrow>
     Offset m = pos s \<and> Length m = push_bit 1 (BufferLength (Cfg E))"
  by (auto simp: iteration_def finish_def Let_def log_entries_append
      split: select_case.splits sum.splits prod.splits if_splits option.splits
      dest: packets_offset)

lemma iteration_writes:
  "iteration E i s = (out, s', evs) \<Longrightarrow> length (sample_writes evs) \<le> 1"
  by (auto simp: iteration_def finish_def Let_def sample_writes_append
      split: select_case.splits sum.splits prod.splits if_splits option.splits
      dest: packets_writes)



section \<open>Facts about one iteration\<close>

lemma iteration_none:
  assumes "sel i = Default" "rd i = Inr data"
    and "\<forall>pkt\<in>set (candidates E i s). \<not> accepted E pkt"
  shows "iteration E i s =
    (Running, s\<lparr>dec := snd (Decode E (dec s) (fill (block s) data)), block := fill (block s) data\<rparr>,
     [Read_ev])"
  using assms
  by (simp add: iteration_def candidates_def Let_def split_beta packets_none finish_def)










lemma after_write_append:
  "sample_writes xs = [] \<Longrightarrow> after_write (xs @ ys) = after_write ys"
  by (induction xs rule: after_write.induct) simp_all

lemma after_write_no_writes: "sample_writes evs = [] \<Longrightarrow> after_write evs = []"
  by (induction evs rule: after_write.induct) simp_all



lemma iteration_after_write:
  "iteration E i s = (out, s', evs) \<Longrightarrow> log_entries (after_write evs) = []"
  by (auto simp: iteration_def finish_def Let_def after_write_append after_write_no_writes
      split: select_case.splits sum.splits prod.splits if_splits option.splits
      dest: packets_writes)




lemma loop_Running:
  assumes "iteration E i s = (Running, s1, evs)" "loop E rest s1 = (out, s', evss)"
  shows "loop E (i # rest) s = (out, s', evs # evss)"
  using assms by simp











section \<open>The small receiver at work\<close>

lemmas demo_defs = demo_plain_def demo_single_def demo_env_def good_input_def demo_state_def
  demo_parse_def DevNull_def

lemmas run_defs = Run_def iteration_def finish_def fill_def accept_def len_map_def emit_def Let_def

text \<open>A block with two accepted candidates.\<close>

lemma demo_iteration:
  "iteration demo_plain (good_input 5 [1, 2]) demo_state =
     (Running, \<lparr>dec = [0, 0, 0, 0, 1, 2], block = [1, 2], pos = 6\<rparr>,
      [Read_ev,
       Println_ev True \<lparr>Time = 5, Offset = 0, Length = 6,
         Message = \<lparr>MeterID = 1, MeterType = 7, payload = [1]\<rparr>\<rparr> True,
       Println_ev True \<lparr>Time = 5, Offset = 0, Length = 6,
         Message = \<lparr>MeterID = 2, MeterType = 7, payload = [2]\<rparr>\<rparr> True,
       Write_ev [0, 0, 0, 0, 1, 2] None])"
  by (simp add: demo_defs run_defs)

lemma demo_candidates:
  "candidates demo_plain (good_input 5 [1, 2]) demo_state = [[1], [2]]"
  "candidates demo_single (good_input 5 [1, 2]) demo_state = [[1], [2]]"
  "candidates demo_single (good_input 3 [0, 4]) demo_state = [[0], [4]]"
  by (simp_all add: candidates_def demo_defs fill_def)

lemma demo_accepted:
  "accepted demo_plain [1]" "accepted demo_single [1]" "accepted demo_single [2]"
  "accepted demo_single [4]"
  by (simp_all add: accepted_def demo_defs accept_def len_map_def)




section \<open>The filter\<close>

lemma index_map_true:
  assumes "\<forall>k v. fmlookup m k = Some v \<longrightarrow> v"
  shows "index_map m k \<longleftrightarrow> k |\<in>| fmdom m"
  using assms by (auto simp: index_map_def fmlookup_dom_iff split: option.splits)

text \<open>
  C1. The inclusion set of a dimension is the set of keys of its map; the maps hold
  the value \<^verbatim>\<open>true\<close> only, as maps used as sets do. Then a message passes the filter
  if and only if the set of meter identifiers is empty or contains the message's
  \<^verbatim>\<open>MeterID\<close>, and the set of meter types is empty or contains its \<^verbatim>\<open>MeterType\<close>: an
  empty set switches the filter of its dimension off.
\<close>

theorem accept_iff:
  assumes "\<forall>k v. fmlookup (meterID E) k = Some v \<longrightarrow> v"
    and "\<forall>k v. fmlookup (meterType E) k = Some v \<longrightarrow> v"
  shows "accept E scm \<longleftrightarrow>
    (fmdom (meterID E) = {||} \<or> ucast (MeterID scm) |\<in>| fmdom (meterID E)) \<and>
    (fmdom (meterType E) = {||} \<or> ucast (MeterType scm) |\<in>| fmdom (meterType E))"
  using assms by (auto simp: accept_def index_map_true len_map_def)

theorem accept_iff_witness:
  "accept (demo_env False ''samples'' None (fmupd 5 True fmempty) fmempty)
     \<lparr>MeterID = 5, MeterType = 7, payload = []\<rparr> \<and>
   \<not> accept (demo_env False ''samples'' None (fmupd 5 True fmempty) fmempty)
     \<lparr>MeterID = 6, MeterType = 7, payload = []\<rparr>"
proof -
  let ?E = "demo_env False ''samples'' None (fmupd 5 True fmempty) fmempty"
  have ids: "\<forall>k v. fmlookup (meterID ?E) k = Some v \<longrightarrow> v"
    by (simp add: demo_env_def)
  have types: "\<forall>k v. fmlookup (meterType ?E) k = Some v \<longrightarrow> v"
    by (simp add: demo_env_def)
  show ?thesis
    using accept_iff [OF ids types, of "\<lparr>MeterID = 5, MeterType = 7, payload = []\<rparr>"]
      accept_iff [OF ids types, of "\<lparr>MeterID = 6, MeterType = 7, payload = []\<rparr>"]
    by (simp add: demo_env_def)
qed

section \<open>The capture file\<close>





text \<open>
  C10. All log entries of one iteration record the same \<^verbatim>\<open>Offset\<close>, the position of
  the capture file when the iteration began, in single-shot mode or not: the iteration
  writes to the capture file at most once, and no log entry follows that write.
\<close>

theorem block_offsets_equal:
  assumes "iteration E i s = (out, s', evs)"
  shows "(\<forall>m\<in>set (log_entries evs). \<forall>m'\<in>set (log_entries evs). Offset m = Offset m') \<and>
    (\<forall>m\<in>set (log_entries evs). Offset m = pos s) \<and>
    length (sample_writes evs) \<le> 1 \<and> log_entries (after_write evs) = []"
  using iteration_offset [OF assms] iteration_writes [OF assms] iteration_after_write [OF assms]
  by simp

theorem block_offsets_equal_witness:
  "\<not> single demo_plain \<and>
   map Offset (log_entries (snd (snd (iteration demo_plain (good_input 5 [1, 2]) demo_state)))) =
     [0, 0]"
  using block_offsets_equal [OF demo_iteration] demo_iteration by (simp add: demo_defs)

section \<open>The length of a log entry\<close>




section \<open>Single-shot mode\<close>



text \<open>
  C4, as the claim states it, fails: in single-shot mode, of the two accepted
  candidates of a block only the first is written, where the normal mode writes both.
\<close>

theorem single_candidates_counterexample:
  "single demo_single \<and>
   candidates demo_single (good_input 5 [1, 2]) demo_state = [[1], [2]] \<and>
   accepted demo_single [1] \<and> accepted demo_single [2] \<and>
   map MeterID (map Message (log_entries (snd (snd
     (iteration demo_single (good_input 5 [1, 2]) demo_state))))) = [1] \<and>
   map MeterID (map Message (log_entries (snd (snd
     (iteration demo_plain (good_input 5 [1, 2]) demo_state))))) = [1, 2]"
  by (simp add: demo_candidates demo_accepted demo_iteration) (simp add: demo_defs run_defs)

text \<open>
  C4, amended. In single-shot mode the candidates of a block are parsed, filtered
  and written as in normal mode up to and including the first accepted candidate;
  the candidates after it are not processed.
\<close>

theorem single_upto_accepted:
  "packets (E\<lparr>single := True\<rparr>) i p k pkts f =
   packets (E\<lparr>single := False\<rparr>) i p k (upto_accepted E pkts) f"
  by (rule packets_upto)

section \<open>Candidates that do not parse\<close>

text \<open>
  C7. A candidate whose parse fails is skipped: the inner loop goes on with the next
  candidate and nothing is written for it. When every candidate of a block fails to
  parse, the iteration makes no call but the read (no log entry, no write to the
  capture file) and the loop goes on with its next iteration.
\<close>

theorem parse_failure_skipped:
  "(Parse E pkt = Inl err \<longrightarrow> packets E i p k (pkt # rest) f = packets E i p (Suc k) rest f) \<and>
   (sel i = Default \<and> rd i = Inr data \<and>
    (\<forall>pkt\<in>set (candidates E i s). \<exists>err. Parse E pkt = Inl err) \<longrightarrow>
      iteration E i s =
        (Running,
         s\<lparr>dec := snd (Decode E (dec s) (fill (block s) data)), block := fill (block s) data\<rparr>,
         [Read_ev]) \<and>
      loop E (i # inputs) s =
        (case loop E inputs
           (s\<lparr>dec := snd (Decode E (dec s) (fill (block s) data)), block := fill (block s) data\<rparr>)
         of (out, s', evss) \<Rightarrow> (out, s', [Read_ev] # evss)))"
proof -
  have skip: "Parse E pkt = Inl err \<longrightarrow>
      packets E i p k (pkt # rest) f = packets E i p (Suc k) rest f"
    by simp
  have block: "iteration E i s =
        (Running,
         s\<lparr>dec := snd (Decode E (dec s) (fill (block s) data)), block := fill (block s) data\<rparr>,
         [Read_ev])"
    if "sel i = Default" "rd i = Inr data"
      "\<forall>pkt\<in>set (candidates E i s). \<exists>err. Parse E pkt = Inl err"
  proof -
    from that(3) have "\<forall>pkt\<in>set (candidates E i s). \<not> accepted E pkt"
      by (auto simp: accepted_def)
    from iteration_none [OF that(1,2) this] show ?thesis .
  qed
  from skip block show ?thesis by simp
qed

theorem parse_failure_skipped_witness:
  "Parse demo_plain [0] = Inl (Error ''checksum'') \<and>
   packets demo_plain (good_input 1 [0, 0]) 0 0 [[0], [0]] False = ([], False, False) \<and>
   iteration demo_plain (good_input 1 [0, 0]) demo_state = (Running, demo_state, [Read_ev]) \<and>
   loop demo_plain [good_input 1 [0, 0]] demo_state = (Running, demo_state, [[Read_ev]])"
  using parse_failure_skipped [of demo_plain "[0]" "Error ''checksum''" "good_input 1 [0, 0]" 0 0
      "[[0]]" False "[0, 0]" demo_state "[]"]
    parse_failure_skipped [of demo_plain "[0]" "Error ''checksum''" "good_input 1 [0, 0]" 0 1
      "[]" False "[0, 0]" demo_state "[]"]
  by (simp add: demo_defs candidates_def fill_def)

section \<open>Fatal errors\<close>

text \<open>
  C5. When the first read fails, the process prints the error and exits with
  status 1, and none of the calls deferred in \<^verbatim>\<open>main\<close> is made: \<^verbatim>\<open>log.Fatal\<close> leaves
  through \<^verbatim>\<open>os.Exit\<close>. On an interrupt the deferred calls close the files.
\<close>

theorem read_error_skips_deferred:
  "main demo_plain [] None [(good_input 1 [])\<lparr>rd := Inl (Error ''EOF'')\<rparr>]
     [0, 0, 0, 0, 0, 0] 0 =
     (Some 1, [Read_ev, Fatal_ev ''Error reading samples: '']) \<and>
   main demo_plain [] None [(good_input 1 [])\<lparr>sel := Sigint\<rparr>] [0, 0, 0, 0, 0, 0] 0 =
     (Some 0, [Close_ev ''rcvr'', Close_ev ''sampleFile'', Close_ev ''logFile''])"
  by (simp add: main_def deferred_def demo_defs run_defs)

text \<open>
  C6. In plain-text output a log line whose write fails does not end the process:
  the loop goes on, writes the raw samples, and the process later ends with status 0
  on an interrupt. An error of \<^verbatim>\<open>encoder.Encode\<close> does end it, with status 1.
\<close>

theorem print_failure_ignored:
  "main demo_plain [] None
     [(good_input 1 [1, 0])\<lparr>prn := (\<lambda>k. False)\<rparr>, (good_input 2 [])\<lparr>sel := Sigint\<rparr>]
     [0, 0, 0, 0, 0, 0] 0 =
     (Some 0,
      [Read_ev,
       Println_ev True \<lparr>Time = 1, Offset = 0, Length = 6,
         Message = \<lparr>MeterID = 1, MeterType = 7, payload = [1]\<rparr>\<rparr> False,
       Write_ev [0, 0, 0, 0, 1, 0] None,
       Close_ev ''rcvr'', Close_ev ''sampleFile'', Close_ev ''logFile'']) \<and>
   main (demo_env False ''samples'' (Some OtherEncoder) fmempty fmempty) [] None
     [(good_input 1 [1, 0])\<lparr>enc := (\<lambda>k. Some (Error ''encode''))\<rparr>,
      (good_input 2 [])\<lparr>sel := Sigint\<rparr>]
     [0, 0, 0, 0, 0, 0] 0 =
     (Some 1,
      [Read_ev,
       Encode_ev \<lparr>Time = 1, Offset = 0, Length = 6,
         Message = \<lparr>MeterID = 1, MeterType = 7, payload = [1]\<rparr>\<rparr> (Some (Error ''encode'')),
       Fatal_ev ''Error encoding message: ''])"
  by (simp add: main_def deferred_def demo_defs run_defs)

end
